theory Spec2Isabelle
  imports Main
begin

section \<open>Data model of the admin chat context\<close>

text \<open>
  JavaScript strings are modelled as HOL strings; every \<^typ>\<open>char\<close> stands for one code
  unit below 256.  \<open>String.prototype.trim\<close> strips white space and line terminators from
  both ends; in that range these are TAB, LF, VT, FF, CR, SPACE and NBSP.
\<close>

type_synonym jsstring = string

definition is_white_space :: "char \<Rightarrow> bool" where
  "is_white_space c = (of_char c \<in> {9::nat, 10, 11, 12, 13, 32, 160})"

definition trim :: "jsstring \<Rightarrow> jsstring" where
  "trim s = rev (dropWhile is_white_space (rev (dropWhile is_white_space s)))"

datatype author = Admin | Agent

record message =
  id_m :: int
  conversation_id :: int
  author :: author
  text_m :: jsstring
  created_at :: jsstring

record conversation =
  id_c :: int
  customer_id :: int
  title :: jsstring
  external_thread_id :: jsstring
  created_at_c :: jsstring

record js_file =
  name_f :: jsstring
  type_f :: jsstring
  size_f :: nat

text \<open>
  The React state of \<open>AdminChatProvider\<close>.  \<open>pendingFrames\<close> holds the callbacks handed to
  \<open>requestAnimationFrame\<close> that have not run yet, each one a functional update of the
  message list, oldest first.
\<close>

record provider_state =
  showChatPanel :: bool
  customerId :: "int option"
  conversations :: "conversation list"
  selectedConversationId :: "int option"
  messages :: "message list"
  isSending :: bool
  isLoadingMessages :: bool
  pendingFrames :: "(message list \<Rightarrow> message list) list"

text \<open>
  What a call of \<open>fetch\<close> can give: the promise rejects (network error), or a response
  with a status arrives; its body is \<open>None\<close> when \<open>res.json()\<close> rejects.
\<close>

datatype 'a fetch_result = NetworkError | Response nat "'a option"

definition ok :: "nat \<Rightarrow> bool" where
  "ok status = (200 \<le> status \<and> status \<le> 299)"

datatype request =
    GetMessages int
  | PostChatJson int jsstring
  | PostChatForm int jsstring "js_file list"
  | PostConversation int jsstring
  | DeleteConversation int

datatype effect = Fetch request | Sleep nat | ConsoleError jsstring

datatype exn = FetchRejected | JsonRejected

section \<open>Animation frames\<close>

text \<open>
  \<open>if (typeof window !== "undefined") requestAnimationFrame(() => setMessages(u)) else
  setMessages(u)\<close>: with a window the update is queued for the next frame, without one it
  is applied at once.
\<close>

definition setMessages_on_frame ::
  "bool \<Rightarrow> (message list \<Rightarrow> message list) \<Rightarrow> provider_state \<Rightarrow> provider_state" where
  "setMessages_on_frame window u st =
     (if window then st\<lparr>pendingFrames := pendingFrames st @ [u]\<rparr>
      else st\<lparr>messages := u (messages st)\<rparr>)"

text \<open>The browser runs the queued frame callbacks in the order they were requested.\<close>

definition run_frames :: "provider_state \<Rightarrow> provider_state" where
  "run_frames st =
     st\<lparr>messages := fold (\<lambda>u ms. u ms) (pendingFrames st) (messages st),
        pendingFrames := []\<rparr>"

section \<open>loadMessages\<close>

datatype loop_ctl = Continue | Return | FallThrough

text \<open>The body of the \<open>try\<close> block of one attempt; \<open>Inl\<close> is a thrown exception.\<close>

definition loadMessages_try ::
  "bool \<Rightarrow> nat \<Rightarrow> nat \<Rightarrow> message list fetch_result \<Rightarrow> nat \<Rightarrow> provider_state
     \<Rightarrow> exn + (loop_ctl \<times> provider_state \<times> effect list)" where
  "loadMessages_try window retries delay res attempt st =
     (case res of
        NetworkError \<Rightarrow> Inl FetchRejected
      | Response status body \<Rightarrow>
          if \<not> ok status then
            if attempt < retries - 1 then Inr (Continue, st, [Sleep (delay * 2 ^ attempt)])
            else Inr (Return, st\<lparr>messages := []\<rparr>, [ConsoleError ''Failed to load messages''])
          else
            (case body of
               None \<Rightarrow> Inl JsonRejected
             | Some data \<Rightarrow> Inr (Return, setMessages_on_frame window (\<lambda>_. data) st, [])))"

text \<open>The \<open>catch\<close> block.\<close>

definition loadMessages_catch ::
  "nat \<Rightarrow> nat \<Rightarrow> nat \<Rightarrow> provider_state \<Rightarrow> loop_ctl \<times> provider_state \<times> effect list" where
  "loadMessages_catch retries delay attempt st =
     (if attempt < retries - 1 then (Continue, st, [Sleep (delay * 2 ^ attempt)])
      else (FallThrough, st\<lparr>messages := []\<rparr>, [ConsoleError ''Error loading messages'']))"

text \<open>One iteration: the fetch, then \<open>try\<close>/\<open>catch\<close>, then the \<open>finally\<close> block.\<close>

definition loadMessages_attempt ::
  "bool \<Rightarrow> int \<Rightarrow> nat \<Rightarrow> nat \<Rightarrow> message list fetch_result \<Rightarrow> nat \<Rightarrow> provider_state
     \<Rightarrow> loop_ctl \<times> provider_state \<times> effect list" where
  "loadMessages_attempt window conversationId retries delay res attempt st =
     (case (case loadMessages_try window retries delay res attempt st of
              Inl e \<Rightarrow> loadMessages_catch retries delay attempt st
            | Inr r \<Rightarrow> r) of
        (ctl, st', tr) \<Rightarrow>
          (ctl, st'\<lparr>isLoadingMessages := False\<rparr>, Fetch (GetMessages conversationId) # tr))"

text \<open>
  \<open>for (let attempt = 0; attempt < retries; attempt++)\<close>.  The backend is given as the
  outcome of the fetch of each attempt.
\<close>

function loadMessages_loop ::
  "bool \<Rightarrow> int \<Rightarrow> nat \<Rightarrow> nat \<Rightarrow> (nat \<Rightarrow> message list fetch_result) \<Rightarrow> nat \<Rightarrow> provider_state
     \<Rightarrow> provider_state \<times> effect list" where
  "loadMessages_loop window conversationId retries delay backend attempt st =
     (if attempt < retries then
        (case loadMessages_attempt window conversationId retries delay (backend attempt) attempt st of
           (Return, st', tr) \<Rightarrow> (st', tr)
         | (_, st', tr) \<Rightarrow>
             (case loadMessages_loop window conversationId retries delay backend (Suc attempt) st' of
                (st'', tr') \<Rightarrow> (st'', tr @ tr')))
      else (st, []))"
  by pat_completeness auto
termination
  by (relation "measure (\<lambda>(w, c, retries, d, b, attempt, s). retries - attempt)") auto

declare loadMessages_loop.simps [simp del]

definition loadMessages ::
  "bool \<Rightarrow> int \<Rightarrow> nat \<Rightarrow> nat \<Rightarrow> (nat \<Rightarrow> message list fetch_result) \<Rightarrow> provider_state
     \<Rightarrow> provider_state \<times> effect list" where
  "loadMessages window conversationId retries delay backend st =
     loadMessages_loop window conversationId retries delay backend 0 (st\<lparr>isLoadingMessages := True\<rparr>)"

text \<open>Every caller uses the default arguments \<open>retries = 3\<close>, \<open>delay = 300\<close>.\<close>

definition loadMessages_default ::
  "bool \<Rightarrow> int \<Rightarrow> (nat \<Rightarrow> message list fetch_result) \<Rightarrow> provider_state
     \<Rightarrow> provider_state \<times> effect list" where
  "loadMessages_default window conversationId backend st =
     loadMessages window conversationId 3 300 backend st"

text \<open>
  The ways one attempt can fail: the fetch rejects, the status is not 2xx, or the body
  of a 2xx response does not parse.  \<open>failure_log\<close> is the message the last failed attempt
  hands to \<open>console.error\<close>.
\<close>

definition request_failed :: "'a fetch_result \<Rightarrow> bool" where
  "request_failed res =
     (case res of NetworkError \<Rightarrow> True
      | Response status body \<Rightarrow> (if ok status then body = None else True))"

definition failure_log :: "'a fetch_result \<Rightarrow> jsstring" where
  "failure_log res =
     (case res of NetworkError \<Rightarrow> ''Error loading messages''
      | Response status body \<Rightarrow>
          (if ok status then ''Error loading messages'' else ''Failed to load messages''))"



definition is_fetch :: "effect \<Rightarrow> bool" where
  "is_fetch e = (case e of Fetch r \<Rightarrow> True | Sleep n \<Rightarrow> False | ConsoleError m \<Rightarrow> False)"

section \<open>sendMessage\<close>

text \<open>
  The body of the response to a send is given by its \<open>messages\<close> field: \<open>None\<close> when the
  field is absent or not an array.  \<open>has_messages\<close> is the test
  \<open>data.messages && Array.isArray(data.messages) && data.messages.length > 0\<close>.
\<close>

type_synonym send_data = "message list option"

definition has_messages :: "send_data \<Rightarrow> bool" where
  "has_messages data = (case data of None \<Rightarrow> False | Some ms \<Rightarrow> ms \<noteq> [])"

definition data_messages :: "send_data \<Rightarrow> message list" where
  "data_messages data = (case data of None \<Rightarrow> [] | Some ms \<Rightarrow> ms)"

definition no_files :: "js_file list option \<Rightarrow> bool" where
  "no_files files = (case files of None \<Rightarrow> True | Some fs \<Rightarrow> fs = [])"

definition tempAdminMessage :: "int \<Rightarrow> jsstring \<Rightarrow> jsstring \<Rightarrow> message" where
  "tempAdminMessage conversationId text now =
     \<lparr>id_m = - 1, conversation_id = conversationId, author = Admin,
      text_m = (if trim text \<noteq> [] then trim text else ''[Files attached]''),
      created_at = now\<rparr>"

definition send_request :: "int \<Rightarrow> jsstring \<Rightarrow> js_file list option \<Rightarrow> request" where
  "send_request conversationId text files =
     (if no_files files then PostChatJson conversationId text
      else PostChatForm conversationId (trim text) (case files of None \<Rightarrow> [] | Some fs \<Rightarrow> fs))"

text \<open>The \<open>try\<close> block after the fetch has settled with \<open>res\<close>.\<close>

definition sendMessage_try ::
  "bool \<Rightarrow> int \<Rightarrow> jsstring \<Rightarrow> send_data fetch_result \<Rightarrow> (nat \<Rightarrow> message list fetch_result)
     \<Rightarrow> provider_state \<Rightarrow> exn + (provider_state \<times> effect list)" where
  "sendMessage_try window conversationId text res load_backend st =
     (case res of
        NetworkError \<Rightarrow> Inl FetchRejected
      | Response status body \<Rightarrow>
          if \<not> ok status then
            Inr (st\<lparr>messages :=
                      filter (\<lambda>m. id_m m \<noteq> - 1 \<or> text_m m \<noteq> trim text) (messages st)\<rparr>,
                 [ConsoleError ''Failed to send chat message''])
          else
            (case body of
               None \<Rightarrow> Inl JsonRejected
             | Some data \<Rightarrow>
                 if has_messages data then
                   Inr (setMessages_on_frame window
                          (\<lambda>prev. filter (\<lambda>m. \<not> (id_m m = - 1 \<and> text_m m = trim text)) prev
                                    @ data_messages data) st,
                        [])
                 else
                   (case loadMessages_default window conversationId load_backend st of
                      (st', tr) \<Rightarrow> Inr (st', Sleep 100 # tr))))"

definition sendMessage_catch :: "jsstring \<Rightarrow> provider_state \<Rightarrow> provider_state \<times> effect list" where
  "sendMessage_catch text st =
     (st\<lparr>messages := filter (\<lambda>m. \<not> (id_m m = - 1 \<and> text_m m = trim text)) (messages st)\<rparr>,
      [ConsoleError ''Error talking to chat backend''])"

text \<open>
  \<open>now\<close> is \<open>new Date().toISOString()\<close>, \<open>res\<close> what the POST settles with and
  \<open>load_backend\<close> what the fetches of the fallback \<open>loadMessages\<close> settle with.  Reading
  the text of a response that has arrived (\<open>res.text()\<close> in the non-2xx branch) is taken to
  succeed.  The call is followed from its start to its end, no other handler running in
  between; the same holds for \<open>createConversation\<close> and \<open>deleteConversation\<close> below.
\<close>

definition sendMessage ::
  "bool \<Rightarrow> int \<Rightarrow> jsstring \<Rightarrow> js_file list option \<Rightarrow> jsstring \<Rightarrow> send_data fetch_result
     \<Rightarrow> (nat \<Rightarrow> message list fetch_result) \<Rightarrow> provider_state \<Rightarrow> provider_state \<times> effect list" where
  "sendMessage window conversationId text files now res load_backend st =
     (if trim text = [] \<and> no_files files then (st, [])
      else
        (case (case sendMessage_try window conversationId text res load_backend
                      (st\<lparr>messages := messages st @ [tempAdminMessage conversationId text now],
                          isSending := True\<rparr>) of
                 Inl e \<Rightarrow>
                   sendMessage_catch text
                     (st\<lparr>messages := messages st @ [tempAdminMessage conversationId text now],
                         isSending := True\<rparr>)
               | Inr r \<Rightarrow> r) of
           (st', tr) \<Rightarrow>
             (st'\<lparr>isSending := False\<rparr>, Fetch (send_request conversationId text files) # tr)))"

section \<open>createConversation and deleteConversation\<close>

text \<open>The decimal numeral a template literal prints for a non-negative integer.\<close>

definition digit_char :: "nat \<Rightarrow> char" where
  "digit_char d = ''0123456789'' ! d"

fun string_of_nat :: "nat \<Rightarrow> jsstring" where
  "string_of_nat n =
     (if n < 10 then [digit_char n]
      else string_of_nat (n div 10) @ [digit_char (n mod 10)])"

declare string_of_nat.simps [simp del]

definition no_usable_title :: "jsstring option \<Rightarrow> bool" where
  "no_usable_title title_opt = (case title_opt of None \<Rightarrow> True | Some t \<Rightarrow> trim t = [])"

definition trimmedTitle :: "jsstring option \<Rightarrow> nat \<Rightarrow> jsstring" where
  "trimmedTitle title_opt count =
     (case title_opt of
        None \<Rightarrow> ''Conversation '' @ string_of_nat (count + 1)
      | Some t \<Rightarrow> if trim t \<noteq> [] then trim t else ''Conversation '' @ string_of_nat (count + 1))"

text \<open>\<open>!customerId\<close> holds for \<open>null\<close> and for the number 0.\<close>

definition createConversation ::
  "bool \<Rightarrow> jsstring option \<Rightarrow> conversation fetch_result \<Rightarrow> (nat \<Rightarrow> message list fetch_result)
     \<Rightarrow> provider_state \<Rightarrow> conversation option \<times> provider_state \<times> effect list" where
  "createConversation window title_opt res load_backend st =
     (case customerId st of
        None \<Rightarrow> (None, st, [ConsoleError ''Cannot create conversation without a customer''])
      | Some customer \<Rightarrow>
          if customer = 0 then
            (None, st, [ConsoleError ''Cannot create conversation without a customer''])
          else
            (case res of
               NetworkError \<Rightarrow>
                 (None, st,
                  [Fetch (PostConversation customer (trimmedTitle title_opt (length (conversations st)))),
                   ConsoleError ''Error creating conversation''])
             | Response status body \<Rightarrow>
                 if \<not> ok status then
                   (None, st,
                    [Fetch (PostConversation customer (trimmedTitle title_opt (length (conversations st)))),
                     ConsoleError ''Failed to create conversation''])
                 else
                   (case body of
                      None \<Rightarrow>
                        (None, st,
                         [Fetch (PostConversation customer (trimmedTitle title_opt (length (conversations st)))),
                          ConsoleError ''Error creating conversation''])
                    | Some newConversation \<Rightarrow>
                        (case loadMessages_default window (id_c newConversation) load_backend
                                (st\<lparr>conversations := newConversation # conversations st,
                                    selectedConversationId := Some (id_c newConversation),
                                    showChatPanel := True\<rparr>) of
                           (st', tr) \<Rightarrow>
                             (Some newConversation, st',
                              Fetch (PostConversation customer
                                       (trimmedTitle title_opt (length (conversations st)))) # tr)))))"




section \<open>Loads in flight\<close>





definition initial_provider :: provider_state where
  "initial_provider =
     \<lparr>showChatPanel = False, customerId = None, conversations = [],
      selectedConversationId = None, messages = [], isSending = False,
      isLoadingMessages = False, pendingFrames = []\<rparr>"


section \<open>ChatPanel: the typing animation\<close>

record typing_message =
  id_t :: int
  fullText :: jsstring
  displayedText :: jsstring

text \<open>
  A pending timer: its handle, its delay in milliseconds and the value its callback
  passes to \<open>setTypingMessage\<close>.  Handles are positive, hence truthy.
\<close>

record timer =
  handle :: nat
  delay_ms :: nat
  sets_typing :: "typing_message option"

record panel_state =
  typingMessage :: "typing_message option"
  typingTimeoutRef :: "nat option"
  lastAgentMessageIdRef :: "int option"
  prevIsSendingRef :: bool
  processedMessageIdsRef :: "int set"
  timers :: "timer list"
  nextHandle :: nat

definition setTimeout_typing :: "typing_message option \<Rightarrow> nat \<Rightarrow> panel_state \<Rightarrow> panel_state" where
  "setTimeout_typing v d ps =
     ps\<lparr>timers := timers ps @ [\<lparr>handle = nextHandle ps, delay_ms = d, sets_typing = v\<rparr>],
        typingTimeoutRef := Some (nextHandle ps),
        nextHandle := Suc (nextHandle ps)\<rparr>"

text \<open>
  The cleanup of both effects:
  \<open>if (typingTimeoutRef.current) clearTimeout(typingTimeoutRef.current)\<close>.
\<close>

definition clear_typing_timeout :: "panel_state \<Rightarrow> panel_state" where
  "clear_typing_timeout ps =
     (case typingTimeoutRef ps of
        None \<Rightarrow> ps
      | Some h \<Rightarrow> ps\<lparr>timers := filter (\<lambda>t. handle t \<noteq> h) (timers ps)\<rparr>)"

text \<open>
  \<open>messages.filter((m) => m.author === "agent").sort((a, b) => b.id - a.id)[0]\<close>: the
  sort is stable and descending in the id.
\<close>

definition lastAgentMessage :: "message list \<Rightarrow> message option" where
  "lastAgentMessage ms =
     (case sort_key (\<lambda>m. - id_m m) (filter (\<lambda>m. author m = Agent) ms) of
        [] \<Rightarrow> None
      | m # rest \<Rightarrow> Some m)"

text \<open>The body of the effect with dependencies \<open>[messages, isSending, typingMessage]\<close>.\<close>

definition typing_trigger_effect :: "message list \<Rightarrow> bool \<Rightarrow> panel_state \<Rightarrow> panel_state" where
  "typing_trigger_effect ms sending ps =
     (let sendingCompleted = (prevIsSendingRef ps \<and> \<not> sending);
          ps1 =
            (if sendingCompleted \<or> \<not> sending then
               (case lastAgentMessage ms of
                  None \<Rightarrow> ps
                | Some m \<Rightarrow>
                    if id_m m \<notin> processedMessageIdsRef ps \<and> typingMessage ps = None then
                      ps\<lparr>processedMessageIdsRef := insert (id_m m) (processedMessageIdsRef ps),
                         lastAgentMessageIdRef := Some (id_m m),
                         typingMessage :=
                           Some \<lparr>id_t = id_m m, fullText = text_m m, displayedText = []\<rparr>\<rparr>
                    else ps)
             else ps)
      in ps1\<lparr>prevIsSendingRef := sending\<rparr>)"

text \<open>\<open>String.prototype.indexOf\<close> for a single character: \<open>- 1\<close> when it does not occur.\<close>

fun indexOf :: "jsstring \<Rightarrow> char \<Rightarrow> int" where
  "indexOf [] c = - 1"
| "indexOf (x # xs) c =
     (if x = c then 0 else (if indexOf xs c = - 1 then - 1 else indexOf xs c + 1))"

text \<open>The body of the effect with dependency \<open>[typingMessage]\<close>.\<close>

definition typing_animation_effect :: "panel_state \<Rightarrow> panel_state" where
  "typing_animation_effect ps =
     (case typingMessage ps of
        None \<Rightarrow> ps
      | Some tm \<Rightarrow>
          (let currentLength = length (displayedText tm) in
           if currentLength < length (fullText tm) then
             (let remainingText = drop currentLength (fullText tm);
                  nextSpaceIndex = indexOf remainingText CHR '' '';
                  nextNewlineIndex = indexOf remainingText CHR 0x0A;
                  charsToAdd =
                    (if nextSpaceIndex \<noteq> - 1 \<and> nextSpaceIndex < 5 then nat (nextSpaceIndex + 1)
                     else if nextNewlineIndex \<noteq> - 1 \<and> nextNewlineIndex < 3
                       then nat (nextNewlineIndex + 1)
                     else 1);
                  isPunctuation = (take 1 remainingText \<in> set [''.'', '','', ''!'', ''?'', '';'', '':'']);
                  delay = (if isPunctuation then 80 else 25)
              in setTimeout_typing
                   (Some (tm\<lparr>displayedText := take (currentLength + charsToAdd) (fullText tm)\<rparr>))
                   delay ps)
           else setTimeout_typing None 200 ps))"

text \<open>
  A render in which \<open>typingMessage\<close> has changed: the cleanups of both effects run, then
  both bodies.  A render in which only \<open>messages\<close> or \<open>isSending\<close> have changed: the
  cleanup and the body of the first effect run; when that body has called
  \<open>setTypingMessage\<close>, the render for the new \<open>typingMessage\<close> follows.
\<close>

definition render_typing_changed :: "message list \<Rightarrow> bool \<Rightarrow> panel_state \<Rightarrow> panel_state" where
  "render_typing_changed ms sending ps =
     typing_animation_effect
       (typing_trigger_effect ms sending (clear_typing_timeout (clear_typing_timeout ps)))"

definition render_messages_changed :: "message list \<Rightarrow> bool \<Rightarrow> panel_state \<Rightarrow> panel_state" where
  "render_messages_changed ms sending ps =
     (if typingMessage (typing_trigger_effect ms sending (clear_typing_timeout ps)) = typingMessage ps
      then typing_trigger_effect ms sending (clear_typing_timeout ps)
      else render_typing_changed ms sending
             (typing_trigger_effect ms sending (clear_typing_timeout ps)))"

text \<open>A pending timer fires: its callback sets \<open>typingMessage\<close>, and the panel renders.\<close>

definition timer_fires :: "message list \<Rightarrow> bool \<Rightarrow> nat \<Rightarrow> panel_state \<Rightarrow> panel_state" where
  "timer_fires ms sending h ps =
     (case filter (\<lambda>t. handle t = h) (timers ps) of
        [] \<Rightarrow> ps
      | t # ts \<Rightarrow>
          if sets_typing t = None \<and> typingMessage ps = None
          then ps\<lparr>timers := filter (\<lambda>t. handle t \<noteq> h) (timers ps)\<rparr>
          else render_typing_changed ms sending
                 (ps\<lparr>timers := filter (\<lambda>t. handle t \<noteq> h) (timers ps),
                     typingMessage := sets_typing t\<rparr>))"

text \<open>
  The local constant \<open>displayText\<close> of the message loop:
  \<open>isTyping && typingMessage ? typingMessage.displayedText : m.text\<close>, where \<open>isTyping\<close> is
  \<open>typingMessage?.id === m.id\<close>.
\<close>

definition displayText :: "typing_message option \<Rightarrow> message \<Rightarrow> jsstring" where
  "displayText typing m =
     (case typing of
        None \<Rightarrow> text_m m
      | Some tm \<Rightarrow> if id_t tm = id_m m then displayedText tm else text_m m)"

text \<open>
  The text the panel renders in the bubble of a message: for an agent message
  \<open>displayText\<close>, or three dots when that is empty; for an admin message \<open>m.text\<close>.
\<close>

definition rendered_text :: "typing_message option \<Rightarrow> message \<Rightarrow> jsstring" where
  "rendered_text typing m =
     (if author m = Agent then
        (if displayText typing m \<noteq> [] then displayText typing m else ''...'')
      else text_m m)"

definition initial_panel :: panel_state where
  "initial_panel =
     \<lparr>typingMessage = None, typingTimeoutRef = None, lastAgentMessageIdRef = None,
      prevIsSendingRef = False, processedMessageIdsRef = {}, timers = [], nextHandle = 1\<rparr>"

section \<open>ChatPanel: file selection\<close>

record uploaded_file =
  id_u :: jsstring
  file_u :: js_file
  preview :: "jsstring option"

definition SUPPORTED_FILE_TYPES :: "jsstring list" where
  "SUPPORTED_FILE_TYPES =
     [''application/pdf'',
      ''application/vnd.openxmlformats-officedocument.wordprocessingml.document'',
      ''application/msword'',
      ''text/plain'',
      ''text/markdown'',
      ''image/jpeg'',
      ''image/png'',
      ''image/gif'',
      ''image/webp'']"

definition MAX_FILE_SIZE :: nat where
  "MAX_FILE_SIZE = 10 * 1024 * 1024"

definition endsWith :: "jsstring \<Rightarrow> jsstring \<Rightarrow> bool" where
  "endsWith s suffix =
     (length suffix \<le> length s \<and> drop (length s - length suffix) s = suffix)"

definition isValidType :: "js_file \<Rightarrow> bool" where
  "isValidType f =
     (type_f f \<in> set SUPPORTED_FILE_TYPES \<or>
      endsWith (name_f f) ''.docx'' \<or>
      endsWith (name_f f) ''.doc'' \<or>
      endsWith (name_f f) ''.txt'' \<or>
      endsWith (name_f f) ''.md'')"

definition unsupported_error :: "js_file \<Rightarrow> jsstring" where
  "unsupported_error f =
     name_f f @ '': Unsupported file type. Supported: PDF, DOCX, DOC, TXT, MD, or images (JPEG, PNG, GIF, WEBP)''"

definition too_large_error :: "js_file \<Rightarrow> jsstring" where
  "too_large_error f = name_f f @ '': File too large. Maximum size is 10MB.''"

text \<open>
  The \<open>forEach\<close> over the selected files, with its two accumulators.  \<open>fileId i\<close> is the
  id \<open>`${Date.now()}-${Math.random()}`\<close> drawn for the file at index \<open>i\<close>.  The preview
  of an image arrives later, from the \<open>FileReader\<close>.
\<close>

fun handleFileSelect_forEach ::
  "(nat \<Rightarrow> jsstring) \<Rightarrow> nat \<Rightarrow> js_file list \<Rightarrow> uploaded_file list \<Rightarrow> jsstring list
     \<Rightarrow> uploaded_file list \<times> jsstring list" where
  "handleFileSelect_forEach fileId i [] newFiles errors = (newFiles, errors)"
| "handleFileSelect_forEach fileId i (f # fs) newFiles errors =
     (if \<not> isValidType f then
        handleFileSelect_forEach fileId (Suc i) fs newFiles (errors @ [unsupported_error f])
      else if size_f f > MAX_FILE_SIZE then
        handleFileSelect_forEach fileId (Suc i) fs newFiles (errors @ [too_large_error f])
      else
        handleFileSelect_forEach fileId (Suc i) fs
          (newFiles @ [\<lparr>id_u = fileId i, file_u = f, preview = None\<rparr>]) errors)"

text \<open>
  The result is the new upload list and the lines of the \<open>alert\<close> (none when nothing
  was rejected).
\<close>

definition handleFileSelect ::
  "(nat \<Rightarrow> jsstring) \<Rightarrow> js_file list option \<Rightarrow> uploaded_file list
     \<Rightarrow> uploaded_file list \<times> jsstring list" where
  "handleFileSelect fileId files uploadedFiles =
     (case files of
        None \<Rightarrow> (uploadedFiles, [])
      | Some fs \<Rightarrow>
          if fs = [] then (uploadedFiles, [])
          else
            (case handleFileSelect_forEach fileId 0 fs [] [] of
               (newFiles, errors) \<Rightarrow>
                 (if newFiles \<noteq> [] then uploadedFiles @ newFiles else uploadedFiles, errors)))"

text \<open>What the claim calls accepted: a valid type and at most the maximal size.\<close>

definition accepted :: "js_file \<Rightarrow> bool" where
  "accepted f = (isValidType f \<and> size_f f \<le> MAX_FILE_SIZE)"

definition rejection_error :: "js_file \<Rightarrow> jsstring" where
  "rejection_error f = (if isValidType f then too_large_error f else unsupported_error f)"


section \<open>Concrete data for the scenarios\<close>

definition cv_pdf :: js_file where
  "cv_pdf = \<lparr>name_f = ''cv.pdf'', type_f = ''application/pdf'', size_f = 1000\<rparr>"

definition m101 :: message where
  "m101 = \<lparr>id_m = 101, conversation_id = 5, author = Admin, text_m = ''hello'',
           created_at = ''t1''\<rparr>"

definition m102 :: message where
  "m102 = \<lparr>id_m = 102, conversation_id = 5, author = Agent, text_m = ''hi there'',
           created_at = ''t2''\<rparr>"

definition conv1 :: conversation where
  "conv1 = \<lparr>id_c = 1, customer_id = 9, title = ''Conversation 1'',
            external_thread_id = ''th1'', created_at_c = ''t1''\<rparr>"

definition conv2 :: conversation where
  "conv2 = \<lparr>id_c = 2, customer_id = 9, title = ''Conversation 2'',
            external_thread_id = ''th2'', created_at_c = ''t2''\<rparr>"

definition m11 :: message where
  "m11 = \<lparr>id_m = 11, conversation_id = 1, author = Agent, text_m = ''from one'',
          created_at = ''t1''\<rparr>"


definition two_conversations :: provider_state where
  "two_conversations =
     initial_provider\<lparr>customerId := Some 9, conversations := [conv1, conv2],
       selectedConversationId := Some 1, messages := [m11], showChatPanel := True\<rparr>"



definition conv3 :: conversation where
  "conv3 = \<lparr>id_c = 3, customer_id = 9, title = ''Conversation 3'',
            external_thread_id = ''th3'', created_at_c = ''t3''\<rparr>"

definition m104 :: message where
  "m104 = \<lparr>id_m = 104, conversation_id = 5, author = Agent, text_m = ''second reply'',
           created_at = ''t4''\<rparr>"

text \<open>
  The panel is mounted with the messages 101 and 102, starts the animation of 102, and
  the first timer of the animation has fired.
\<close>

definition typing_102 :: panel_state where
  "typing_102 =
     timer_fires [m101, m102] False 1 (render_messages_changed [m101, m102] False initial_panel)"

definition big_pdf :: js_file where
  "big_pdf = \<lparr>name_f = ''scan.pdf'', type_f = ''application/pdf'', size_f = 10485761\<rparr>"

definition tool_exe :: js_file where
  "tool_exe = \<lparr>name_f = ''tool.exe'', type_f = ''application/octet-stream'', size_f = 10\<rparr>"

definition notes_md :: js_file where
  "notes_md = \<lparr>name_f = ''notes.md'', type_f = [], size_f = 10485760\<rparr>"

definition example_fileId :: "nat \<Rightarrow> jsstring" where
  "example_fileId i = ''id-'' @ string_of_nat i"

section \<open>Properties of loadMessages\<close>

lemma not_failed_cases:
  "\<not> request_failed res \<Longrightarrow> \<exists>status data. ok status \<and> res = Response status (Some data)"
  by (cases res) (auto simp: request_failed_def split: if_splits)

lemma attempt_fail_not_last:
  "request_failed res \<Longrightarrow> attempt < retries - 1 \<Longrightarrow>
   loadMessages_attempt w cid retries delay res attempt st =
     (Continue, st\<lparr>isLoadingMessages := False\<rparr>,
      [Fetch (GetMessages cid), Sleep (delay * 2 ^ attempt)])"
  by (auto simp: request_failed_def loadMessages_attempt_def loadMessages_try_def
      loadMessages_catch_def split: fetch_result.splits if_splits)

lemma attempt_fail_last:
  "request_failed res \<Longrightarrow> \<not> attempt < retries - 1 \<Longrightarrow>
   \<exists>ctl. ctl \<noteq> Continue \<and> loadMessages_attempt w cid retries delay res attempt st =
     (ctl, st\<lparr>messages := [], isLoadingMessages := False\<rparr>,
      [Fetch (GetMessages cid), ConsoleError (failure_log res)])"
  by (auto simp: request_failed_def failure_log_def loadMessages_attempt_def
      loadMessages_try_def loadMessages_catch_def split: fetch_result.splits if_splits)

lemma attempt_success:
  "ok status \<Longrightarrow>
   loadMessages_attempt w cid retries delay (Response status (Some data)) attempt st =
     (Return, (setMessages_on_frame w (\<lambda>_. data) st)\<lparr>isLoadingMessages := False\<rparr>,
      [Fetch (GetMessages cid)])"
  by (simp add: loadMessages_attempt_def loadMessages_try_def)

lemma loop_done:
  "\<not> attempt < retries \<Longrightarrow> loadMessages_loop w cid retries delay backend attempt st = (st, [])"
  by (simp add: loadMessages_loop.simps)

lemma loop_fail_last:
  assumes "request_failed (backend attempt)" "attempt < retries" "\<not> attempt < retries - 1"
  shows "loadMessages_loop w cid retries delay backend attempt st =
     (st\<lparr>messages := [], isLoadingMessages := False\<rparr>,
      [Fetch (GetMessages cid), ConsoleError (failure_log (backend attempt))])"
proof -
  from assms have d: "\<not> Suc attempt < retries" by simp
  obtain ctl where "ctl \<noteq> Continue"
    and "loadMessages_attempt w cid retries delay (backend attempt) attempt st =
     (ctl, st\<lparr>messages := [], isLoadingMessages := False\<rparr>,
      [Fetch (GetMessages cid), ConsoleError (failure_log (backend attempt))])"
    using attempt_fail_last [OF assms(1,3)] by blast
  with assms(2) show ?thesis
    by (subst loadMessages_loop.simps, cases ctl) (simp_all add: loop_done [OF d])
qed

lemma loop_fail_retry:
  assumes "request_failed (backend attempt)" "attempt < retries - 1"
  shows "loadMessages_loop w cid retries delay backend attempt st =
     (fst (loadMessages_loop w cid retries delay backend (Suc attempt)
             (st\<lparr>isLoadingMessages := False\<rparr>)),
      [Fetch (GetMessages cid), Sleep (delay * 2 ^ attempt)] @
      snd (loadMessages_loop w cid retries delay backend (Suc attempt)
             (st\<lparr>isLoadingMessages := False\<rparr>)))"
proof -
  from assms(2) have "attempt < retries" by simp
  with assms show ?thesis
    by (subst loadMessages_loop.simps) (simp add: attempt_fail_not_last split: prod.splits)
qed

lemma loop_success:
  assumes "attempt < retries" "backend attempt = Response status (Some data)" "ok status"
  shows "loadMessages_loop w cid retries delay backend attempt st =
     ((setMessages_on_frame w (\<lambda>_. data) st)\<lparr>isLoadingMessages := False\<rparr>,
      [Fetch (GetMessages cid)])"
  using assms by (subst loadMessages_loop.simps) (simp add: attempt_success)




text \<open>A call never fetches more often than \<open>retries\<close> allows.\<close>

lemma loop_fetch_bound:
  "length (filter is_fetch (snd (loadMessages_loop w cid retries delay backend attempt st)))
     \<le> retries - attempt"
proof (induction "retries - attempt" arbitrary: attempt st)
  case 0
  then show ?case by (simp add: loop_done)
next
  case (Suc n)
  then have lt: "attempt < retries" by simp
  show ?case
  proof (cases "request_failed (backend attempt)")
    case False
    then obtain status data where "ok status" "backend attempt = Response status (Some data)"
      using not_failed_cases by blast
    with lt show ?thesis by (simp add: loop_success is_fetch_def)
  next
    case True
    show ?thesis
    proof (cases "attempt < retries - 1")
      case False
      with True lt show ?thesis by (simp add: loop_fail_last is_fetch_def)
    next
      case retry: True
      from Suc(2) have "n = retries - Suc attempt" by simp
      from Suc(1) [OF this, of "st\<lparr>isLoadingMessages := False\<rparr>"] True retry lt
      show ?thesis by (simp add: loop_fail_retry is_fetch_def)
    qed
  qed
qed

text \<open>
  C4: with the default arguments, when the fetch fails at each of the three attempts
  (network error, status outside 2xx, or a body that does not parse), \<open>loadMessages\<close>
  fetches three times, waits \<open>300 * 2 ^ 0\<close> ms and \<open>300 * 2 ^ 1\<close> ms between the attempts,
  logs the failure, leaves the message list empty and returns normally: its result is a
  state, since the \<open>catch\<close> block handles every exception of the \<open>try\<close> block.  Whatever the
  backend does, a call fetches at most three times.
\<close>

theorem loadMessages_retries_then_empty:
  assumes "request_failed (backend 0)" "request_failed (backend 1)" "request_failed (backend 2)"
  shows "loadMessages_default w cid backend st =
     (st\<lparr>isLoadingMessages := False, messages := []\<rparr>,
      [Fetch (GetMessages cid), Sleep (300 * 2 ^ 0), Fetch (GetMessages cid), Sleep (300 * 2 ^ 1),
       Fetch (GetMessages cid), ConsoleError (failure_log (backend 2))])
     \<and> length (filter is_fetch (snd (loadMessages_default w cid any_backend st))) \<le> 3"
proof -
  have f1: "request_failed (backend (Suc 0))" and f2: "request_failed (backend (Suc (Suc 0)))"
    using assms by (simp_all add: numeral_2_eq_2)
  have l2: "\<And>st. loadMessages_loop w cid 3 300 backend (Suc (Suc 0)) st =
      (st\<lparr>messages := [], isLoadingMessages := False\<rparr>,
       [Fetch (GetMessages cid), ConsoleError (failure_log (backend (Suc (Suc 0))))])"
    using f2 by (simp add: loop_fail_last)
  have l1: "\<And>st. loadMessages_loop w cid 3 300 backend (Suc 0) st =
      (st\<lparr>messages := [], isLoadingMessages := False\<rparr>,
       [Fetch (GetMessages cid), Sleep 600, Fetch (GetMessages cid),
        ConsoleError (failure_log (backend (Suc (Suc 0))))])"
    using f1 by (simp add: loop_fail_retry l2)
  have l0: "\<And>st. loadMessages_loop w cid 3 300 backend 0 st =
      (st\<lparr>messages := [], isLoadingMessages := False\<rparr>,
       [Fetch (GetMessages cid), Sleep 300, Fetch (GetMessages cid), Sleep 600,
        Fetch (GetMessages cid), ConsoleError (failure_log (backend (Suc (Suc 0))))])"
    using assms(1) by (simp add: loop_fail_retry l1)
  have "length (filter is_fetch (snd (loadMessages_default w cid any_backend st))) \<le> 3"
    using loop_fetch_bound [of w cid 3 300 any_backend 0]
    by (simp add: loadMessages_default_def loadMessages_def)
  then show ?thesis
    by (simp add: loadMessages_default_def loadMessages_def l0 numeral_2_eq_2)
qed

theorem loadMessages_retries_then_empty_witness:
  "loadMessages_default True 7 (\<lambda>n. Response 500 None) (initial_provider\<lparr>messages := [m101, m102]\<rparr>) =
     (initial_provider,
      [Fetch (GetMessages 7), Sleep 300, Fetch (GetMessages 7), Sleep 600,
       Fetch (GetMessages 7), ConsoleError ''Failed to load messages''])
   \<and> length (filter is_fetch (snd (loadMessages_default True 7 (\<lambda>n. NetworkError)
        (initial_provider\<lparr>messages := [m101, m102]\<rparr>)))) \<le> 3"
  using loadMessages_retries_then_empty [of "\<lambda>n. Response 500 None" True 7
      "initial_provider\<lparr>messages := [m101, m102]\<rparr>" "\<lambda>n. NetworkError"]
  by (simp add: request_failed_def ok_def failure_log_def initial_provider_def)

text \<open>
  The list that is visible once the pending frame callbacks have run is fixed by the
  backend alone.
\<close>

lemma loop_messages_determined:
  assumes "attempt < retries" "pendingFrames st1 = []" "pendingFrames st2 = []"
  shows "messages (run_frames (fst (loadMessages_loop w cid retries delay backend attempt st1))) =
         messages (run_frames (fst (loadMessages_loop w cid retries delay backend attempt st2)))"
  using assms
proof (induction "retries - attempt" arbitrary: attempt st1 st2)
  case 0
  then show ?case by simp
next
  case (Suc n)
  show ?case
  proof (cases "request_failed (backend attempt)")
    case False
    then obtain status data where "ok status" "backend attempt = Response status (Some data)"
      using not_failed_cases by blast
    with Suc.prems show ?thesis
      by (simp add: loop_success run_frames_def setMessages_on_frame_def)
  next
    case True
    show ?thesis
    proof (cases "attempt < retries - 1")
      case False
      with True Suc.prems show ?thesis by (simp add: loop_fail_last run_frames_def)
    next
      case retry: True
      from Suc(2) have n: "n = retries - Suc attempt" by simp
      from retry have "Suc attempt < retries" by simp
      from Suc(1) [OF n this, of "st1\<lparr>isLoadingMessages := False\<rparr>"
          "st2\<lparr>isLoadingMessages := False\<rparr>"] True retry Suc.prems
      show ?thesis by (simp add: loop_fail_retry)
    qed
  qed
qed

lemma run_frames_no_pending [simp]: "pendingFrames (run_frames st) = []"
  by (simp add: run_frames_def)

text \<open>
  C7: \<open>loadMessages\<close> is idempotent.  Called twice in a row for the same conversation,
  with the backend answering the fetches of the second call as it answered those of the
  first, and no frame callback pending from before, the second call ends with the
  message list the first call ended with.
\<close>

theorem loadMessages_idempotent:
  assumes "pendingFrames st = []"
  shows "messages (run_frames (fst (loadMessages w cid retries delay backend
            (run_frames (fst (loadMessages w cid retries delay backend st)))))) =
         messages (run_frames (fst (loadMessages w cid retries delay backend st)))"
proof (cases "0 < retries")
  case True
  have "pendingFrames ((run_frames (fst (loadMessages w cid retries delay backend st)))
          \<lparr>isLoadingMessages := True\<rparr>) = []"
    by simp
  from loop_messages_determined [OF True this, of "st\<lparr>isLoadingMessages := True\<rparr>" w cid
      delay backend] assms
  show ?thesis
    by (simp add: loadMessages_def)
next
  case False
  then show ?thesis by (simp add: loadMessages_def loop_done run_frames_def assms)
qed

theorem loadMessages_idempotent_witness:
  "pendingFrames initial_provider = [] \<and>
   messages (run_frames (fst (loadMessages True 5 3 300 (\<lambda>n. Response 200 (Some [m101, m102]))
      (run_frames (fst (loadMessages True 5 3 300 (\<lambda>n. Response 200 (Some [m101, m102]))
         initial_provider)))))) = [m101, m102]"
proof -
  have p: "pendingFrames initial_provider = []"
    by (simp add: initial_provider_def)
  have "messages (run_frames (fst (loadMessages True 5 3 300
          (\<lambda>n. Response 200 (Some [m101, m102])) initial_provider))) = [m101, m102]"
    by (simp add: loadMessages_def loop_success [where status = 200 and data = "[m101, m102]"]
        ok_def run_frames_def setMessages_on_frame_def initial_provider_def)
  with loadMessages_idempotent [OF p, of True 5 3 300 "\<lambda>n. Response 200 (Some [m101, m102])"] p
  show ?thesis by simp
qed

section \<open>Properties of sendMessage\<close>

lemma trim_empty [simp]: "trim [] = []"
  by (simp add: trim_def)

lemma trim_spaces: "trim ''  '' = []"
  by (simp add: trim_def is_white_space_def)

text \<open>
  C6: called with a text that trims to the empty string and with no files,
  \<open>sendMessage\<close> returns at once: no request goes to the backend and the state is the one
  it was called in.
\<close>

theorem sendMessage_blank_is_noop:
  assumes "trim text = []" "no_files files"
  shows "sendMessage window conversationId text files now res load_backend st = (st, [])"
  using assms by (simp add: sendMessage_def)

theorem sendMessage_blank_is_noop_witness:
  "sendMessage True 5 ''  '' None ''t0'' (Response 200 (Some (Some [m101, m102])))
     (\<lambda>n. NetworkError) initial_provider = (initial_provider, [])"
  using sendMessage_blank_is_noop [of "''  ''" None True 5 "''t0''"
      "Response 200 (Some (Some [m101, m102]))" "\<lambda>n. NetworkError" initial_provider]
  by (simp add: trim_spaces no_files_def)

text \<open>
  When the text does not trim to the empty string, a successful send whose response
  carries messages removes the placeholder and appends the messages of the server, and a
  failed send removes the placeholder.
\<close>

lemma sendMessage_success_reconciles:
  assumes "trim text \<noteq> []" "ok status" "ms \<noteq> []" "pendingFrames st = []"
  shows "messages (run_frames (fst (sendMessage window conversationId text files now
             (Response status (Some (Some ms))) load_backend st))) =
         filter (\<lambda>m. \<not> (id_m m = - 1 \<and> text_m m = trim text)) (messages st) @ ms"
  using assms
  by (simp add: sendMessage_def sendMessage_try_def has_messages_def data_messages_def
      setMessages_on_frame_def run_frames_def tempAdminMessage_def)

lemma sendMessage_failure_rolls_back:
  assumes "trim text \<noteq> []"
    "res = NetworkError \<or> (\<exists>status body. res = Response status body \<and> \<not> ok status)"
  shows "messages (fst (sendMessage window conversationId text files now res load_backend st)) =
         filter (\<lambda>m. \<not> (id_m m = - 1 \<and> text_m m = trim text)) (messages st)"
  using assms
  by (auto simp: sendMessage_def sendMessage_try_def sendMessage_catch_def tempAdminMessage_def)

text \<open>
  C1: a successful send whose response carries messages should leave no placeholder
  behind.  For a send of files with an empty text the placeholder has the text
  \<open>[Files attached]\<close>, the filter looks for the trimmed text of the send, which is empty,
  and the placeholder stays in the list in front of the messages of the server.
\<close>

theorem sendMessage_files_only_success_leaks_placeholder:
  "messages (run_frames (fst (sendMessage True 5 [] (Some [cv_pdf]) ''t0''
       (Response 200 (Some (Some [m101, m102]))) (\<lambda>n. NetworkError) initial_provider))) =
     [\<lparr>id_m = - 1, conversation_id = 5, author = Admin, text_m = ''[Files attached]'',
       created_at = ''t0''\<rparr>,
      m101, m102]"
  by (simp add: sendMessage_def sendMessage_try_def has_messages_def data_messages_def
      no_files_def setMessages_on_frame_def run_frames_def tempAdminMessage_def
      initial_provider_def ok_def)

text \<open>
  C2: a failed send should leave the message list as it was before the call.  For a send
  of files with an empty text the placeholder \<open>[Files attached]\<close> survives both the
  filter of the non-2xx branch and the filter of the \<open>catch\<close> block: the list was empty
  before the call and holds the placeholder after it.
\<close>

theorem sendMessage_files_only_failure_leaks_placeholder:
  "messages initial_provider = []
   \<and> messages (fst (sendMessage True 5 [] (Some [cv_pdf]) ''t0''
       (Response 500 None) (\<lambda>n. NetworkError) initial_provider)) =
     [\<lparr>id_m = - 1, conversation_id = 5, author = Admin, text_m = ''[Files attached]'',
       created_at = ''t0''\<rparr>]
   \<and> messages (fst (sendMessage True 5 [] (Some [cv_pdf]) ''t0''
       NetworkError (\<lambda>n. NetworkError) initial_provider)) =
     [\<lparr>id_m = - 1, conversation_id = 5, author = Admin, text_m = ''[Files attached]'',
       created_at = ''t0''\<rparr>]"
  by (simp add: sendMessage_def sendMessage_try_def sendMessage_catch_def no_files_def
      tempAdminMessage_def initial_provider_def ok_def)


section \<open>Selection and loads in flight\<close>







section \<open>Properties of deleteConversation and createConversation\<close>

text \<open>A load writes the message list and the loading flag only.\<close>

lemma loop_keeps_selection:
  "selectedConversationId (fst (loadMessages_loop w cid retries delay backend attempt st)) =
     selectedConversationId st \<and>
   conversations (fst (loadMessages_loop w cid retries delay backend attempt st)) =
     conversations st \<and>
   showChatPanel (fst (loadMessages_loop w cid retries delay backend attempt st)) =
     showChatPanel st \<and>
   customerId (fst (loadMessages_loop w cid retries delay backend attempt st)) = customerId st"
proof (induction "retries - attempt" arbitrary: attempt st)
  case 0
  then show ?case by (simp add: loop_done)
next
  case (Suc n)
  then have lt: "attempt < retries" by simp
  show ?case
  proof (cases "request_failed (backend attempt)")
    case False
    then obtain status data where "ok status" "backend attempt = Response status (Some data)"
      using not_failed_cases by blast
    with lt show ?thesis by (simp add: loop_success setMessages_on_frame_def)
  next
    case True
    show ?thesis
    proof (cases "attempt < retries - 1")
      case False
      with True lt show ?thesis by (simp add: loop_fail_last)
    next
      case retry: True
      from Suc(2) have "n = retries - Suc attempt" by simp
      from Suc(1) [OF this, of "st\<lparr>isLoadingMessages := False\<rparr>"] True retry lt
      show ?thesis by (simp add: loop_fail_retry)
    qed
  qed
qed

lemma loop_first_fetch:
  assumes lt: "attempt < retries"
  shows "\<exists>tr. snd (loadMessages_loop w cid retries delay backend attempt st) =
           Fetch (GetMessages cid) # tr"
proof (cases "request_failed (backend attempt)")
  case False
  then obtain status data where "ok status" "backend attempt = Response status (Some data)"
    using not_failed_cases by blast
  with lt show ?thesis by (simp add: loop_success)
next
  case True
  show ?thesis
  proof (cases "attempt < retries - 1")
    case False
    with True lt show ?thesis by (simp add: loop_fail_last)
  next
    case retry: True
    with True show ?thesis by (simp add: loop_fail_retry)
  qed
qed

lemma loadMessages_default_first_fetch:
  "\<exists>tr. snd (loadMessages_default w cid backend st) = Fetch (GetMessages cid) # tr"
  using loop_first_fetch [of 0 3 w cid 300 backend]
  by (simp add: loadMessages_default_def loadMessages_def)





lemma loadMessages_default_keeps:
  "selectedConversationId (fst (loadMessages_default w cid backend st)) =
     selectedConversationId st \<and>
   conversations (fst (loadMessages_default w cid backend st)) = conversations st \<and>
   showChatPanel (fst (loadMessages_default w cid backend st)) = showChatPanel st \<and>
   customerId (fst (loadMessages_default w cid backend st)) = customerId st"
  using loop_keeps_selection [of w cid 3 300 backend 0 "st\<lparr>isLoadingMessages := True\<rparr>"]
  by (simp add: loadMessages_default_def loadMessages_def)

lemma loadMessages_default_loaded:
  "ok status \<Longrightarrow> backend 0 = Response status (Some data) \<Longrightarrow> pendingFrames st = [] \<Longrightarrow>
   messages (run_frames (fst (loadMessages_default w cid backend st))) = data"
  by (simp add: loadMessages_default_def loadMessages_def loop_success setMessages_on_frame_def
      run_frames_def)

lemma createConversation_success_unfold:
  assumes "customerId st = Some c" "c \<noteq> 0" "ok status"
  shows "createConversation w title_opt (Response status (Some conv)) backend st =
     (Some conv,
      fst (loadMessages_default w (id_c conv) backend
             (st\<lparr>conversations := conv # conversations st,
                 selectedConversationId := Some (id_c conv), showChatPanel := True\<rparr>)),
      Fetch (PostConversation c (trimmedTitle title_opt (length (conversations st)))) #
      snd (loadMessages_default w (id_c conv) backend
             (st\<lparr>conversations := conv # conversations st,
                 selectedConversationId := Some (id_c conv), showChatPanel := True\<rparr>)))"
  using assms by (simp add: createConversation_def split: prod.splits)

lemma createConversation_created:
  assumes "customerId st = Some c" "c \<noteq> 0" "ok status"
  shows "fst (createConversation w title_opt (Response status (Some conv)) backend st) = Some conv"
    and "selectedConversationId
           (fst (snd (createConversation w title_opt (Response status (Some conv)) backend st))) =
           Some (id_c conv)"
    and "conversations
           (fst (snd (createConversation w title_opt (Response status (Some conv)) backend st))) =
           conv # conversations st"
    and "\<exists>tr. snd (snd (createConversation w title_opt (Response status (Some conv)) backend st)) =
           Fetch (PostConversation c (trimmedTitle title_opt (length (conversations st)))) #
           Fetch (GetMessages (id_c conv)) # tr"
    and "ok status' \<Longrightarrow> backend 0 = Response status' (Some data) \<Longrightarrow> pendingFrames st = [] \<Longrightarrow>
         messages (run_frames (fst (snd (createConversation w title_opt
             (Response status (Some conv)) backend st)))) = data"
  using loadMessages_default_first_fetch [of w "id_c conv" backend]
  by (simp_all add: createConversation_success_unfold [OF assms] loadMessages_default_keeps
      loadMessages_default_loaded)

lemma createConversation_failed:
  assumes "customerId st = None \<or> request_failed res"
  shows "fst (createConversation w title_opt res backend st) = None"
    and "fst (snd (createConversation w title_opt res backend st)) = st"
  using assms
  by (auto simp: createConversation_def request_failed_def
      split: option.splits fetch_result.splits if_splits)

lemma default_title:
  "no_usable_title title_opt \<Longrightarrow>
   trimmedTitle title_opt n = ''Conversation '' @ string_of_nat (n + 1)"
  by (auto simp: no_usable_title_def trimmedTitle_def split: option.splits)

text \<open>
  C9: without a usable title (none, or one that trims to the empty string) the title
  sent to the backend is \<open>Conversation\<close> followed by the number of local conversations plus
  one.  When a customer is active and the POST succeeds, the call returns the new
  conversation, puts it in front of the list and selects it, and after the POST it
  fetches the messages of the new conversation, which become the message list.  When no
  customer is active or the request fails, the call returns null and leaves the state
  as it is.
\<close>

theorem createConversation_contract:
  "(no_usable_title title_opt \<longrightarrow>
      trimmedTitle title_opt n = ''Conversation '' @ string_of_nat (n + 1))
   \<and> (customerId st = Some c \<and> c \<noteq> 0 \<and> ok status \<longrightarrow>
        fst (createConversation w title_opt (Response status (Some conv)) backend st) = Some conv \<and>
        selectedConversationId
          (fst (snd (createConversation w title_opt (Response status (Some conv)) backend st))) =
          Some (id_c conv) \<and>
        conversations
          (fst (snd (createConversation w title_opt (Response status (Some conv)) backend st))) =
          conv # conversations st \<and>
        (\<exists>tr. snd (snd (createConversation w title_opt (Response status (Some conv)) backend st)) =
           Fetch (PostConversation c (trimmedTitle title_opt (length (conversations st)))) #
           Fetch (GetMessages (id_c conv)) # tr))
   \<and> (customerId st = Some c \<and> c \<noteq> 0 \<and> ok status \<and> ok status' \<and>
       backend 0 = Response status' (Some data) \<and> pendingFrames st = [] \<longrightarrow>
        messages (run_frames
          (fst (snd (createConversation w title_opt (Response status (Some conv)) backend st)))) =
          data)
   \<and> (customerId st' = None \<or> request_failed res \<longrightarrow>
        fst (createConversation w title_opt res backend st') = None \<and>
        fst (snd (createConversation w title_opt res backend st')) = st')"
proof (intro conjI impI)
  assume "no_usable_title title_opt"
  then show "trimmedTitle title_opt n = ''Conversation '' @ string_of_nat (n + 1)"
    by (rule default_title)
next
  assume "customerId st' = None \<or> request_failed res"
  then show "fst (createConversation w title_opt res backend st') = None"
    and "fst (snd (createConversation w title_opt res backend st')) = st'"
    by (rule createConversation_failed)+
next
  assume "customerId st = Some c \<and> c \<noteq> 0 \<and> ok status \<and> ok status' \<and>
       backend 0 = Response status' (Some data) \<and> pendingFrames st = []"
  then show "messages (run_frames
          (fst (snd (createConversation w title_opt (Response status (Some conv)) backend st)))) =
          data"
    using createConversation_created(5) by blast
qed (simp_all add: createConversation_created)

theorem createConversation_contract_witness:
  "trimmedTitle (Some ''  '') 2 = ''Conversation 3'' \<and>
   fst (createConversation True (Some ''  '') (Response 201 (Some conv3))
          (\<lambda>n. Response 200 (Some [])) two_conversations) = Some conv3 \<and>
   selectedConversationId (fst (snd (createConversation True (Some ''  '')
          (Response 201 (Some conv3)) (\<lambda>n. Response 200 (Some [])) two_conversations))) = Some 3 \<and>
   conversations (fst (snd (createConversation True (Some ''  '')
          (Response 201 (Some conv3)) (\<lambda>n. Response 200 (Some [])) two_conversations))) =
     [conv3, conv1, conv2] \<and>
   (\<exists>tr. snd (snd (createConversation True (Some ''  '') (Response 201 (Some conv3))
          (\<lambda>n. Response 200 (Some [])) two_conversations)) =
      Fetch (PostConversation 9 ''Conversation 3'') # Fetch (GetMessages 3) # tr) \<and>
   messages (run_frames (fst (snd (createConversation True (Some ''  '')
          (Response 201 (Some conv3)) (\<lambda>n. Response 200 (Some [])) two_conversations)))) = [] \<and>
   fst (createConversation True (Some ''  '') (Response 500 None)
          (\<lambda>n. Response 200 (Some [])) two_conversations) = None \<and>
   fst (snd (createConversation True (Some ''  '') (Response 500 None)
          (\<lambda>n. Response 200 (Some [])) two_conversations)) = two_conversations"
proof -
  have t: "no_usable_title (Some ''  '')"
    by (simp add: no_usable_title_def trim_spaces)
  have n: "''Conversation '' @ string_of_nat (2 + 1) = ''Conversation 3''"
    by (simp add: string_of_nat.simps digit_char_def)
  have l: "trimmedTitle (Some ''  '') (length (conversations two_conversations)) =
      ''Conversation 3''"
    by (simp add: trimmedTitle_def trim_spaces two_conversations_def string_of_nat.simps
        digit_char_def)
  have s: "customerId two_conversations = Some 9 \<and> (9::int) \<noteq> 0 \<and> ok 201"
    "customerId two_conversations = Some 9 \<and> (9::int) \<noteq> 0 \<and> ok 201 \<and> ok 200 \<and>
       (\<lambda>n::nat. Response 200 (Some ([]::message list))) 0 = Response 200 (Some []) \<and>
       pendingFrames two_conversations = []"
    "customerId two_conversations = None \<or>
       request_failed (Response 500 None :: conversation fetch_result)"
    by (simp_all add: two_conversations_def initial_provider_def ok_def request_failed_def)
  have c: "conv3 # conversations two_conversations = [conv3, conv1, conv2]" "id_c conv3 = 3"
    by (simp_all add: two_conversations_def conv3_def)
  note T = createConversation_contract [of "Some ''  ''" 2 two_conversations 9 201 True conv3
      "\<lambda>n. Response 200 (Some [])" 200 "[]" two_conversations "Response 500 None"]
  from T t n have "trimmedTitle (Some ''  '') 2 = ''Conversation 3''"
    by simp
  moreover from T s(1) c l have
    "fst (createConversation True (Some ''  '') (Response 201 (Some conv3))
          (\<lambda>n. Response 200 (Some [])) two_conversations) = Some conv3 \<and>
     selectedConversationId (fst (snd (createConversation True (Some ''  '')
          (Response 201 (Some conv3)) (\<lambda>n. Response 200 (Some [])) two_conversations))) = Some 3 \<and>
     conversations (fst (snd (createConversation True (Some ''  '')
          (Response 201 (Some conv3)) (\<lambda>n. Response 200 (Some [])) two_conversations))) =
       [conv3, conv1, conv2] \<and>
     (\<exists>tr. snd (snd (createConversation True (Some ''  '') (Response 201 (Some conv3))
          (\<lambda>n. Response 200 (Some [])) two_conversations)) =
        Fetch (PostConversation 9 ''Conversation 3'') # Fetch (GetMessages 3) # tr)"
    by simp
  moreover from T s(2) have
    "messages (run_frames (fst (snd (createConversation True (Some ''  '')
          (Response 201 (Some conv3)) (\<lambda>n. Response 200 (Some [])) two_conversations)))) = []"
    by blast
  moreover from T s(3) have
    "fst (createConversation True (Some ''  '') (Response 500 None)
          (\<lambda>n. Response 200 (Some [])) two_conversations) = None \<and>
     fst (snd (createConversation True (Some ''  '') (Response 500 None)
          (\<lambda>n. Response 200 (Some [])) two_conversations)) = two_conversations"
    by blast
  ultimately show ?thesis by blast
qed

section \<open>Properties of the typing animation\<close>

lemma last_agent_of_two: "lastAgentMessage [m101, m102] = Some m102"
  by (simp add: lastAgentMessage_def m101_def m102_def)

lemma last_agent_of_three: "lastAgentMessage [m101, m102, m104] = Some m104"
  by (simp add: lastAgentMessage_def m101_def m102_def m104_def)

lemma m102_fields: "id_m m102 = 102" "text_m m102 = ''hi there''"
  by (simp_all add: m102_def)

lemma m104_fields: "id_m m104 = 104" "text_m m104 = ''second reply''"
  by (simp_all add: m104_def)

lemma mounted:
  "render_messages_changed [m101, m102] False initial_panel =
     \<lparr>typingMessage = Some \<lparr>id_t = 102, fullText = ''hi there'', displayedText = []\<rparr>,
      typingTimeoutRef = Some 1, lastAgentMessageIdRef = Some 102,
      prevIsSendingRef = False, processedMessageIdsRef = {102},
      timers = [\<lparr>handle = 1, delay_ms = 25,
                 sets_typing =
                   Some \<lparr>id_t = 102, fullText = ''hi there'', displayedText = ''hi ''\<rparr>\<rparr>],
      nextHandle = 2\<rparr>"
  by (simp add: render_messages_changed_def render_typing_changed_def
      typing_trigger_effect_def typing_animation_effect_def clear_typing_timeout_def
      setTimeout_typing_def initial_panel_def last_agent_of_two Let_def m102_fields)

lemma typing_102_eq:
  "typing_102 =
     \<lparr>typingMessage = Some \<lparr>id_t = 102, fullText = ''hi there'', displayedText = ''hi ''\<rparr>,
      typingTimeoutRef = Some 2, lastAgentMessageIdRef = Some 102,
      prevIsSendingRef = False, processedMessageIdsRef = {102},
      timers = [\<lparr>handle = 2, delay_ms = 25,
                 sets_typing =
                   Some \<lparr>id_t = 102, fullText = ''hi there'', displayedText = ''hi t''\<rparr>\<rparr>],
      nextHandle = 3\<rparr>"
  by (simp add: typing_102_def mounted timer_fires_def render_typing_changed_def
      typing_trigger_effect_def typing_animation_effect_def clear_typing_timeout_def
      setTimeout_typing_def last_agent_of_two Let_def m102_fields)

text \<open>
  C8, as stated, fails: while the animation of message 102 is in progress, the newer agent
  message 104 arrives.  The pending timer is cleared, but the typing state still belongs
  to message 102 and message 104 has not been taken up.
\<close>

theorem newer_message_does_not_start_animation:
  "lastAgentMessage [m101, m102, m104] = Some m104 \<and>
   typingMessage typing_102 =
     Some \<lparr>id_t = 102, fullText = ''hi there'', displayedText = ''hi ''\<rparr> \<and>
   typingMessage (render_messages_changed [m101, m102, m104] False typing_102) =
     Some \<lparr>id_t = 102, fullText = ''hi there'', displayedText = ''hi ''\<rparr> \<and>
   104 \<notin> processedMessageIdsRef (render_messages_changed [m101, m102, m104] False typing_102) \<and>
   timers (render_messages_changed [m101, m102, m104] False typing_102) = []"
  by (simp add: typing_102_eq last_agent_of_three render_messages_changed_def
      typing_trigger_effect_def clear_typing_timeout_def Let_def m104_fields)

lemma trigger_guard:
  "typingMessage ps = Some tm \<Longrightarrow>
   typing_trigger_effect ms sending ps = ps\<lparr>prevIsSendingRef := sending\<rparr>"
  by (simp add: typing_trigger_effect_def Let_def split: option.splits)

lemma indexOf_ge: "- 1 \<le> indexOf xs c"
  by (induction xs) auto

lemma animation_step:
  assumes "typingMessage ps = Some tm"
  shows "\<exists>n d. length (displayedText tm) < n \<and>
           typing_animation_effect ps =
             setTimeout_typing
               (if length (displayedText tm) < length (fullText tm)
                then Some (tm\<lparr>displayedText := take n (fullText tm)\<rparr>) else None) d ps"
proof (cases "length (displayedText tm) < length (fullText tm)")
  case False
  with assms have "typing_animation_effect ps = setTimeout_typing None 200 ps"
    by (simp add: typing_animation_effect_def)
  with False show ?thesis by auto
next
  case True
  define rest where "rest = drop (length (displayedText tm)) (fullText tm)"
  define k where "k =
     (if indexOf rest CHR '' '' \<noteq> - 1 \<and> indexOf rest CHR '' '' < 5
        then nat (indexOf rest CHR '' '' + 1)
      else if indexOf rest CHR 0x0A \<noteq> - 1 \<and> indexOf rest CHR 0x0A < 3
        then nat (indexOf rest CHR 0x0A + 1)
      else 1)"
  have "0 < k"
    using indexOf_ge [of rest "CHR '' ''"] indexOf_ge [of rest "CHR 0x0A"]
    by (auto simp: k_def)
  moreover from assms True have "typing_animation_effect ps =
      setTimeout_typing
        (Some (tm\<lparr>displayedText := take (length (displayedText tm) + k) (fullText tm)\<rparr>))
        (if take 1 rest \<in> set [''.'', '','', ''!'', ''?'', '';'', '':''] then 80 else 25) ps"
    unfolding typing_animation_effect_def Let_def rest_def k_def by simp
  ultimately show ?thesis using True
    by (intro exI [of _ "length (displayedText tm) + k"] exI) simp
qed

lemma trigger_starts:
  assumes "\<not> sending" "lastAgentMessage ms = Some m" "typingMessage ps = None"
    "id_m m \<notin> processedMessageIdsRef ps"
  shows "typing_trigger_effect ms sending ps =
     ps\<lparr>processedMessageIdsRef := insert (id_m m) (processedMessageIdsRef ps),
        lastAgentMessageIdRef := Some (id_m m),
        typingMessage := Some \<lparr>id_t = id_m m, fullText = text_m m, displayedText = []\<rparr>,
        prevIsSendingRef := sending\<rparr>"
  using assms by (simp add: typing_trigger_effect_def Let_def)

lemma clear_keeps:
  "typingMessage (clear_typing_timeout ps) = typingMessage ps"
  "processedMessageIdsRef (clear_typing_timeout ps) = processedMessageIdsRef ps"
  "lastAgentMessageIdRef (clear_typing_timeout ps) = lastAgentMessageIdRef ps"
  by (simp_all add: clear_typing_timeout_def split: option.splits)

lemma animation_keeps:
  "typingMessage (typing_animation_effect ps) = typingMessage ps"
  "processedMessageIdsRef (typing_animation_effect ps) = processedMessageIdsRef ps"
  "lastAgentMessageIdRef (typing_animation_effect ps) = lastAgentMessageIdRef ps"
  by (simp_all add: typing_animation_effect_def setTimeout_typing_def Let_def split: option.splits)

lemma render_busy:
  assumes "typingMessage ps = Some tm"
  shows "typingMessage (render_messages_changed ms sending ps) = Some tm"
    and "processedMessageIdsRef (render_messages_changed ms sending ps) = processedMessageIdsRef ps"
    and "lastAgentMessageIdRef (render_messages_changed ms sending ps) = lastAgentMessageIdRef ps"
proof -
  have c: "typingMessage (clear_typing_timeout ps) = Some tm"
    using assms by (simp add: clear_keeps)
  have r: "render_messages_changed ms sending ps =
             (clear_typing_timeout ps)\<lparr>prevIsSendingRef := sending\<rparr>"
    using assms by (simp add: render_messages_changed_def trigger_guard [OF c] c)
  show "typingMessage (render_messages_changed ms sending ps) = Some tm"
    and "processedMessageIdsRef (render_messages_changed ms sending ps) = processedMessageIdsRef ps"
    and "lastAgentMessageIdRef (render_messages_changed ms sending ps) = lastAgentMessageIdRef ps"
    using assms by (simp_all add: r clear_keeps)
qed

lemma render_idle:
  assumes "\<not> sending" "lastAgentMessage ms = Some m" "typingMessage ps = None"
    "id_m m \<notin> processedMessageIdsRef ps"
  shows "typingMessage (render_messages_changed ms sending ps) =
           Some \<lparr>id_t = id_m m, fullText = text_m m, displayedText = []\<rparr>"
    and "processedMessageIdsRef (render_messages_changed ms sending ps) =
           insert (id_m m) (processedMessageIdsRef ps)"
proof -
  let ?c = "clear_typing_timeout ps"
  let ?t = "typing_trigger_effect ms sending ?c"
  have t: "?t = ?c\<lparr>processedMessageIdsRef := insert (id_m m) (processedMessageIdsRef ?c),
        lastAgentMessageIdRef := Some (id_m m),
        typingMessage := Some \<lparr>id_t = id_m m, fullText = text_m m, displayedText = []\<rparr>,
        prevIsSendingRef := sending\<rparr>"
    using assms by (intro trigger_starts) (simp_all add: clear_keeps)
  have tm: "typingMessage ?t = Some \<lparr>id_t = id_m m, fullText = text_m m, displayedText = []\<rparr>"
    and pr: "processedMessageIdsRef ?t = insert (id_m m) (processedMessageIdsRef ps)"
    by (simp_all add: t clear_keeps)
  have r: "render_messages_changed ms sending ps = render_typing_changed ms sending ?t"
    using assms(3) tm by (simp add: render_messages_changed_def)
  have g: "typingMessage (clear_typing_timeout (clear_typing_timeout ?t)) =
      Some \<lparr>id_t = id_m m, fullText = text_m m, displayedText = []\<rparr>"
    using tm by (simp add: clear_keeps)
  show "typingMessage (render_messages_changed ms sending ps) =
           Some \<lparr>id_t = id_m m, fullText = text_m m, displayedText = []\<rparr>"
    using tm by (simp add: r render_typing_changed_def animation_keeps trigger_guard [OF g] clear_keeps)
  show "processedMessageIdsRef (render_messages_changed ms sending ps) =
           insert (id_m m) (processedMessageIdsRef ps)"
    using pr by (simp add: r render_typing_changed_def animation_keeps trigger_guard [OF g] clear_keeps)
qed

lemma rendered_other:
  "author other = Admin \<or> id_m other \<noteq> id_t tm \<Longrightarrow>
   rendered_text (Some tm) other = rendered_text None other"
  by (auto simp: rendered_text_def displayText_def)


text \<open>
  C8, amended: a newer agent message arrives, not yet processed, and no send is under
  way.  While a typing animation is in progress, no animation starts for it: the guard
  \<open>!typingMessage\<close> leaves the typing message, the processed ids and the last agent id as
  they are.  With no animation in progress, the animation of the new message starts from
  the empty text and the message is marked as processed.  The animation changes the
  rendering only: admin messages and messages other than the one
  being typed are rendered from their own text whatever the typing state, and each step
  of the animation sets a timer that moves the displayed text to a longer prefix of the
  full text, or ends the animation when the full text is displayed.
\<close>

theorem new_animation_only_when_idle:
  assumes "\<not> sending" "lastAgentMessage ms = Some m"
  shows "(typingMessage busy = Some tm \<and> id_m m \<notin> processedMessageIdsRef busy \<longrightarrow>
            typingMessage (render_messages_changed ms sending busy) = Some tm \<and>
            processedMessageIdsRef (render_messages_changed ms sending busy) =
              processedMessageIdsRef busy \<and>
            lastAgentMessageIdRef (render_messages_changed ms sending busy) =
              lastAgentMessageIdRef busy)
     \<and> (typingMessage idle = None \<and> id_m m \<notin> processedMessageIdsRef idle \<longrightarrow>
            typingMessage (render_messages_changed ms sending idle) =
              Some \<lparr>id_t = id_m m, fullText = text_m m, displayedText = []\<rparr> \<and>
            processedMessageIdsRef (render_messages_changed ms sending idle) =
              insert (id_m m) (processedMessageIdsRef idle))
     \<and> (author other = Admin \<or> id_m other \<noteq> id_t tm \<longrightarrow>
            rendered_text (Some tm) other = rendered_text None other)
     \<and> (typingMessage busy = Some tm \<longrightarrow>
            (\<exists>n d. length (displayedText tm) < n \<and>
               typing_animation_effect busy =
                 setTimeout_typing
                   (if length (displayedText tm) < length (fullText tm)
                    then Some (tm\<lparr>displayedText := take n (fullText tm)\<rparr>) else None) d busy))"
  using assms render_busy [of busy tm ms sending] render_idle [of sending ms m idle]
    rendered_other [of other tm] animation_step [of busy tm]
  by blast

theorem new_animation_only_when_idle_witness:
  "typingMessage (render_messages_changed [m101, m102, m104] False typing_102) =
     Some \<lparr>id_t = 102, fullText = ''hi there'', displayedText = ''hi ''\<rparr> \<and>
   processedMessageIdsRef (render_messages_changed [m101, m102, m104] False typing_102) = {102} \<and>
   lastAgentMessageIdRef (render_messages_changed [m101, m102, m104] False typing_102) = Some 102 \<and>
   typingMessage (render_messages_changed [m101, m102, m104] False initial_panel) =
     Some \<lparr>id_t = 104, fullText = ''second reply'', displayedText = []\<rparr> \<and>
   processedMessageIdsRef (render_messages_changed [m101, m102, m104] False initial_panel) = {104} \<and>
   rendered_text (Some \<lparr>id_t = 102, fullText = ''hi there'', displayedText = ''hi ''\<rparr>) m101 =
     rendered_text None m101"
proof -
  have b: "typingMessage typing_102 =
      Some \<lparr>id_t = 102, fullText = ''hi there'', displayedText = ''hi ''\<rparr> \<and>
      id_m m104 \<notin> processedMessageIdsRef typing_102"
    by (simp add: typing_102_eq m104_fields)
  have i: "typingMessage initial_panel = None \<and> id_m m104 \<notin> processedMessageIdsRef initial_panel"
    by (simp add: initial_panel_def)
  have o: "author m101 = Admin \<or>
      id_m m101 \<noteq> id_t \<lparr>id_t = 102, fullText = ''hi there'', displayedText = ''hi ''\<rparr>"
    by (simp add: m101_def)
  have f: "processedMessageIdsRef typing_102 = {102}" "lastAgentMessageIdRef typing_102 = Some 102"
    "processedMessageIdsRef initial_panel = {}"
    by (simp_all add: typing_102_eq initial_panel_def)
  have n: "\<not> False" by simp
  from new_animation_only_when_idle [OF n last_agent_of_three, of typing_102
      "\<lparr>id_t = 102, fullText = ''hi there'', displayedText = ''hi ''\<rparr>" initial_panel m101]
    b i o f m104_fields
  show ?thesis by auto
qed

section \<open>Properties of the file selection\<close>

lemma forEach_files:
  "map file_u (fst (handleFileSelect_forEach fileId i fs newFiles errors)) =
     map file_u newFiles @ filter accepted fs"
  by (induction fs arbitrary: i newFiles errors) (auto simp: accepted_def)

lemma forEach_errors:
  "snd (handleFileSelect_forEach fileId i fs newFiles errors) =
     errors @ map rejection_error (filter (\<lambda>f. \<not> accepted f) fs)"
  by (induction fs arbitrary: i newFiles errors) (auto simp: accepted_def rejection_error_def)

text \<open>
  C10: the file selection appends to the upload list exactly the selected files that
  pass the validation, in their order, and reports one error for each of the others.  A
  file passes when its size is at most 10 * 1024 * 1024 bytes and its MIME type is one
  of the nine supported types or its name ends in \<open>.docx\<close>, \<open>.doc\<close>, \<open>.txt\<close> or \<open>.md\<close>.
\<close>

theorem handleFileSelect_validates:
  "(\<exists>added. fst (handleFileSelect fileId (Some fs) uploadedFiles) = uploadedFiles @ added \<and>
       map file_u added = filter accepted fs)
   \<and> snd (handleFileSelect fileId (Some fs) uploadedFiles) =
       map rejection_error (filter (\<lambda>f. \<not> accepted f) fs)
   \<and> (accepted f \<longleftrightarrow>
        size_f f \<le> 10 * 1024 * 1024 \<and>
        (type_f f \<in> {''application/pdf'',
            ''application/vnd.openxmlformats-officedocument.wordprocessingml.document'',
            ''application/msword'', ''text/plain'', ''text/markdown'',
            ''image/jpeg'', ''image/png'', ''image/gif'', ''image/webp''} \<or>
         endsWith (name_f f) ''.docx'' \<or> endsWith (name_f f) ''.doc'' \<or>
         endsWith (name_f f) ''.txt'' \<or> endsWith (name_f f) ''.md''))"
proof (intro conjI)
  obtain added where a: "fst (handleFileSelect_forEach fileId 0 fs [] []) = added"
    by simp
  with forEach_files [of fileId 0 fs "[]" "[]"] have m: "map file_u added = filter accepted fs"
    by simp
  have "fst (handleFileSelect fileId (Some fs) uploadedFiles) = uploadedFiles @ added"
    using a by (cases fs) (auto simp: handleFileSelect_def split: prod.splits)
  with m show "\<exists>added. fst (handleFileSelect fileId (Some fs) uploadedFiles) = uploadedFiles @ added \<and>
       map file_u added = filter accepted fs"
    by blast
next
  show "snd (handleFileSelect fileId (Some fs) uploadedFiles) =
       map rejection_error (filter (\<lambda>f. \<not> accepted f) fs)"
    using forEach_errors [of fileId 0 fs "[]" "[]"]
    by (cases fs) (auto simp: handleFileSelect_def split: prod.splits)
next
  show "accepted f \<longleftrightarrow>
        size_f f \<le> 10 * 1024 * 1024 \<and>
        (type_f f \<in> {''application/pdf'',
            ''application/vnd.openxmlformats-officedocument.wordprocessingml.document'',
            ''application/msword'', ''text/plain'', ''text/markdown'',
            ''image/jpeg'', ''image/png'', ''image/gif'', ''image/webp''} \<or>
         endsWith (name_f f) ''.docx'' \<or> endsWith (name_f f) ''.doc'' \<or>
         endsWith (name_f f) ''.txt'' \<or> endsWith (name_f f) ''.md'')"
    unfolding accepted_def isValidType_def SUPPORTED_FILE_TYPES_def MAX_FILE_SIZE_def
    by (simp only: list.set) blast
qed

lemma example_files_checked:
  "accepted cv_pdf" "\<not> accepted big_pdf" "\<not> accepted tool_exe" "accepted notes_md"
  by (simp_all add: accepted_def isValidType_def SUPPORTED_FILE_TYPES_def MAX_FILE_SIZE_def
      endsWith_def cv_pdf_def big_pdf_def tool_exe_def notes_md_def)

theorem handleFileSelect_validates_witness:
  "map file_u (fst (handleFileSelect example_fileId (Some [cv_pdf, big_pdf, tool_exe, notes_md]) []))
     = [cv_pdf, notes_md] \<and>
   snd (handleFileSelect example_fileId (Some [cv_pdf, big_pdf, tool_exe, notes_md]) []) =
     [too_large_error big_pdf, unsupported_error tool_exe]"
proof -
  have r: "rejection_error big_pdf = too_large_error big_pdf"
    "rejection_error tool_exe = unsupported_error tool_exe"
    by (simp_all add: rejection_error_def isValidType_def SUPPORTED_FILE_TYPES_def endsWith_def
        big_pdf_def tool_exe_def)
  from handleFileSelect_validates [of example_fileId "[cv_pdf, big_pdf, tool_exe, notes_md]" "[]"]
    example_files_checked r
  show ?thesis by auto
qed

end
